theory Spec2Isabelle
  imports Complex_Main
begin

section \<open>Documents, schemas and the store\<close>

text \<open>
  The route handlers of the consultation routes (\<^verbatim>\<open>router.post('/')\<close>,
  \<^verbatim>\<open>router.put('/:id/reschedule')\<close>, \<^verbatim>\<open>router.put('/:id/status')\<close>,
  \<^verbatim>\<open>router.post('/:id/feedback')\<close>), the controllers \<^verbatim>\<open>updateConsultationStatus\<close> and
  \<^verbatim>\<open>rateConsultation\<close> of the consultation controller and the course route
  \<^verbatim>\<open>router.post('/:id/enroll')\<close> are embedded as functions from the request and the store
  to a response and the new store. Object ids are natural numbers, dates are milliseconds
  since the epoch, numbers are rationals, strings are lists of the code units below 256,
  status and role values are the strings of the source. Each handler reads the clock once
  (\<open>now\<close>); the handler's later \<^verbatim>\<open>new Date()\<close> calls of the same request are identified
  with that reading. The authentication middleware has already run: \<^verbatim>\<open>req.user\<close> is an
  input of the handlers. The ids of a request are well-formed object ids.

  A stored document carries the paths that the schema of its model declares
  (\<^verbatim>\<open>models/Consultation.js\<close>, and the Consultant, Course and Enrollment schemas), and
  nothing else: the schemas are strict, which is the default of the object-document mapper.
  So
  \<^item> a constructor and an update drop every key that is no path of the schema;
  \<^item> an assignment \<^verbatim>\<open>doc.name = value\<close> to a name that is no path sets a property of the
    loaded object only, which \<^verbatim>\<open>save()\<close> does not store, and an assignment to a virtual
    that has a getter only changes nothing;
  \<^item> reading a name that is no path and was not assigned gives \<^verbatim>\<open>undefined\<close>;
  \<^item> \<^verbatim>\<open>save()\<close> runs the validators of the schema (required, enum, min, max, maxlength) and
    throws when one fails, which the \<^verbatim>\<open>catch\<close> block of every handler answers with 500.

  Of the paths of the consultation schema, the record below has those that carry a validator
  or that a handler reads or writes; \<^verbatim>\<open>meetingLink\<close>, \<^verbatim>\<open>meetingPassword\<close>,
  \<^verbatim>\<open>paymentIntentId\<close>, \<^verbatim>\<open>rescheduledFrom\<close>, \<^verbatim>\<open>userNotes\<close>, \<^verbatim>\<open>reminderSent\<close>,
  \<^verbatim>\<open>followUpSent\<close> and \<^verbatim>\<open>createdAt\<close> are declared paths without a validator that no
  embedded handler touches.
\<close>

type_synonym objectId = nat
type_synonym date = int

datatype jsValue = JStr string | JNum rat | JDate date | JBool bool | JId objectId

text \<open>Two settings of the mapper depend on its version, which the sources do not fix (there
  is no package manifest and no call that sets them): whether a query filter on a name that
  is no path is dropped (\<open>strictQuery\<close>) or sent to the database as it is, and whether
  populating a name that is no path throws (\<open>strictPopulate\<close>) or is skipped.\<close>

record mapper =
  strictQuery :: bool
  strictPopulate :: bool

record actor =
  userId :: objectId
  role :: string

record consultation =
  consultation_id :: objectId
  user :: objectId
  consultant :: objectId
  serviceType :: "string option"
  title :: "string option"
  description :: "string option"
  scheduledDate :: date
  duration :: int
  status :: string
  price :: "rat option"
  paymentStatus :: string
  cancellationReason :: "string option"
  consultantNotes :: "string option"
  rating :: "rat option"
  review :: "string option"
  updatedAt :: "date option"

record serviceDoc =
  service_id :: objectId
  service_consultant :: objectId
  service_isActive :: bool
  service_price :: rat

text \<open>The Consultant schema declares \<^verbatim>\<open>user\<close>, \<^verbatim>\<open>name\<close>, \<^verbatim>\<open>email\<close>, \<^verbatim>\<open>isActive\<close>,
  \<^verbatim>\<open>approvalStatus\<close>, \<^verbatim>\<open>specialization\<close>, \<^verbatim>\<open>bio\<close> and \<^verbatim>\<open>createdAt\<close>; the handlers read
  the id and \<^verbatim>\<open>isActive\<close>.\<close>

record consultantDoc =
  consultant_id :: objectId
  isActive :: bool
  approvalStatus :: string

record store =
  consultations :: "consultation list"
  consultants :: "consultantDoc list"
  services :: "serviceDoc list"

record 'a response =
  statusCode :: nat
  success :: bool
  message :: string
  payload :: "'a option"

definition failure :: "nat \<Rightarrow> string \<Rightarrow> 'a response" where
  "failure c m = \<lparr>statusCode = c, success = False, message = m, payload = None\<rparr>"

definition succeed :: "nat \<Rightarrow> string \<Rightarrow> 'a \<Rightarrow> 'a response" where
  "succeed c m d = \<lparr>statusCode = c, success = True, message = m, payload = Some d\<rparr>"

subsection \<open>The consultation schema\<close>

definition consultationPaths :: "string list" where
  "consultationPaths =
     [''_id'', ''user'', ''consultant'', ''serviceType'', ''title'', ''description'',
      ''scheduledDate'', ''duration'', ''status'', ''meetingLink'', ''meetingPassword'',
      ''price'', ''paymentStatus'', ''paymentIntentId'', ''cancellationReason'',
      ''rescheduledFrom'', ''userNotes'', ''consultantNotes'', ''rating'', ''review'',
      ''reminderSent'', ''followUpSent'', ''createdAt'', ''updatedAt'']"

definition consultationVirtuals :: "string list" where
  "consultationVirtuals = [''endTime'', ''isPast'', ''canBeCancelled'']"

definition serviceTypeEnum :: "string list" where
  "serviceTypeEnum =
     [''web-development'', ''graphic-design'', ''it-solutions'', ''tech-consultancy'',
      ''career-guidance'', ''project-review'']"

definition durationEnum :: "int list" where
  "durationEnum = [30, 60, 90, 120]"

definition statusEnum :: "string list" where
  "statusEnum = [''pending'', ''confirmed'', ''completed'', ''cancelled'', ''rescheduled'']"

definition paymentStatusEnum :: "string list" where
  "paymentStatusEnum = [''pending'', ''paid'', ''refunded'', ''failed'']"

text \<open>The validators \<^verbatim>\<open>required\<close> (of a string path: the value is present and not empty)
  and \<^verbatim>\<open>maxlength\<close> (an absent value passes).\<close>

definition requiredString :: "string option \<Rightarrow> bool" where
  "requiredString v = (case v of None \<Rightarrow> False | Some s \<Rightarrow> s \<noteq> [])"

definition maxlength :: "nat \<Rightarrow> string option \<Rightarrow> bool" where
  "maxlength n v = (case v of None \<Rightarrow> True | Some s \<Rightarrow> length s \<le> n)"

text \<open>The validation that \<^verbatim>\<open>save()\<close> runs on a consultation document, path by path as the
  schema declares it; it covers the paths that were loaded as well as those that were set.
  The required paths \<^verbatim>\<open>user\<close>, \<^verbatim>\<open>consultant\<close> and \<^verbatim>\<open>scheduledDate\<close> are present in every
  document of the record type. The enum of the number path \<^verbatim>\<open>duration\<close> is checked by the
  versions of the mapper that have an enum validator for numbers; the stored documents of
  the examples have a duration of the enum.\<close>

definition validateSync :: "consultation \<Rightarrow> bool" where
  "validateSync c =
     (requiredString (serviceType c) \<and>
      (case serviceType c of None \<Rightarrow> True | Some s \<Rightarrow> s \<in> set serviceTypeEnum) \<and>
      requiredString (title c) \<and> maxlength 100 (title c) \<and>
      requiredString (description c) \<and> maxlength 500 (description c) \<and>
      duration c \<in> set durationEnum \<and>
      status c \<in> set statusEnum \<and>
      (case price c of None \<Rightarrow> False | Some p \<Rightarrow> 0 \<le> p) \<and>
      paymentStatus c \<in> set paymentStatusEnum \<and>
      (case rating c of None \<Rightarrow> True | Some r \<Rightarrow> 1 \<le> r \<and> r \<le> 5) \<and>
      maxlength 500 (review c))"

subsection \<open>Loaded documents\<close>

text \<open>A loaded document is the stored document together with the properties that the
  handler has set on the object under names that are no paths. \<^verbatim>\<open>findById\<close> loads a
  document without such properties.\<close>

type_synonym document = "consultation \<times> (string \<times> jsValue) list"

definition findById :: "objectId \<Rightarrow> consultation list \<Rightarrow> consultation option" where
  "findById i cs = find (\<lambda>c. consultation_id c = i) cs"

definition load :: "consultation \<Rightarrow> document" where
  "load c = (c, [])"

text \<open>The value of a declared path. The embedded handlers read only paths of the record;
  the declared paths outside the record are unset in the documents considered.\<close>

definition pathValue :: "string \<Rightarrow> consultation \<Rightarrow> jsValue option" where
  "pathValue p c =
     (if p = ''_id'' then Some (JId (consultation_id c))
      else if p = ''user'' then Some (JId (user c))
      else if p = ''consultant'' then Some (JId (consultant c))
      else if p = ''serviceType'' then map_option JStr (serviceType c)
      else if p = ''title'' then map_option JStr (title c)
      else if p = ''description'' then map_option JStr (description c)
      else if p = ''scheduledDate'' then Some (JDate (scheduledDate c))
      else if p = ''duration'' then Some (JNum (of_int (duration c)))
      else if p = ''status'' then Some (JStr (status c))
      else if p = ''price'' then map_option JNum (price c)
      else if p = ''paymentStatus'' then Some (JStr (paymentStatus c))
      else if p = ''cancellationReason'' then map_option JStr (cancellationReason c)
      else if p = ''consultantNotes'' then map_option JStr (consultantNotes c)
      else if p = ''rating'' then map_option JNum (rating c)
      else if p = ''review'' then map_option JStr (review c)
      else if p = ''updatedAt'' then map_option JDate (updatedAt c)
      else None)"

text \<open>\<^verbatim>\<open>doc.name\<close>: a declared path, the virtual \<^verbatim>\<open>endTime\<close> (scheduled date plus duration),
  or a property set on the object; anything else is \<^verbatim>\<open>undefined\<close> (\<open>None\<close>).\<close>

definition readName :: "string \<Rightarrow> document \<Rightarrow> jsValue option" where
  "readName p m =
     (if p \<in> set consultationPaths then pathValue p (fst m)
      else if p = ''endTime''
      then Some (JDate (scheduledDate (fst m) + duration (fst m) * 60000))
      else map_of (snd m) p)"

text \<open>Setting a declared path; the handlers set the paths below, each with a value of the
  type of the path.\<close>

definition setPath :: "string \<Rightarrow> jsValue \<Rightarrow> consultation \<Rightarrow> consultation" where
  "setPath p v c =
     (if p = ''status'' then (case v of JStr s \<Rightarrow> c\<lparr>status := s\<rparr> | _ \<Rightarrow> c)
      else if p = ''scheduledDate''
      then (case v of JDate d \<Rightarrow> c\<lparr>scheduledDate := d\<rparr> | _ \<Rightarrow> c)
      else if p = ''updatedAt''
      then (case v of JDate d \<Rightarrow> c\<lparr>updatedAt := Some d\<rparr> | _ \<Rightarrow> c)
      else if p = ''cancellationReason''
      then (case v of JStr s \<Rightarrow> c\<lparr>cancellationReason := Some s\<rparr> | _ \<Rightarrow> c)
      else if p = ''consultantNotes''
      then (case v of JStr s \<Rightarrow> c\<lparr>consultantNotes := Some s\<rparr> | _ \<Rightarrow> c)
      else if p = ''rating'' then (case v of JNum r \<Rightarrow> c\<lparr>rating := Some r\<rparr> | _ \<Rightarrow> c)
      else if p = ''price'' then (case v of JNum r \<Rightarrow> c\<lparr>price := Some r\<rparr> | _ \<Rightarrow> c)
      else c)"

text \<open>\<^verbatim>\<open>doc.name = value\<close>.\<close>

definition assign :: "string \<Rightarrow> jsValue \<Rightarrow> document \<Rightarrow> document" where
  "assign p v m =
     (if p \<in> set consultationPaths then (setPath p v (fst m), snd m)
      else if p \<in> set consultationVirtuals then m
      else (fst m, (p, v) # snd m))"

text \<open>The truthiness of a value that was read.\<close>

definition truthyValue :: "jsValue option \<Rightarrow> bool" where
  "truthyValue v =
     (case v of
        None \<Rightarrow> False
      | Some (JStr s) \<Rightarrow> s \<noteq> []
      | Some (JNum n) \<Rightarrow> n \<noteq> 0
      | Some (JDate d) \<Rightarrow> True
      | Some (JBool b) \<Rightarrow> b
      | Some (JId i) \<Rightarrow> True)"

text \<open>\<^verbatim>\<open>doc.save()\<close> of a loaded document: the validators run, and the paths of the document
  replace the stored ones; \<open>None\<close> is the validation error that \<^verbatim>\<open>save()\<close> throws.\<close>

definition replace :: "consultation \<Rightarrow> consultation list \<Rightarrow> consultation list" where
  "replace c cs = map (\<lambda>d. if consultation_id d = consultation_id c then c else d) cs"

definition save :: "document \<Rightarrow> consultation list \<Rightarrow> consultation list option" where
  "save m cs = (if validateSync (fst m) then Some (replace (fst m) cs) else None)"

text \<open>The id a new document receives (ids are unique; a counter above the ids in use stands
  for the generated ObjectId).\<close>

definition newObjectId :: "consultation list \<Rightarrow> objectId" where
  "newObjectId cs = Suc (foldr max (map consultation_id cs) 0)"

subsection \<open>Request validation\<close>

text \<open>The \<^verbatim>\<open>trim()\<close> sanitizer of the validation chains strips the characters of the
  class \<^verbatim>\<open>\s\<close> from both ends; below code unit 256 these are the tab, the line feed, the
  vertical tab, the form feed, the carriage return, the space and the no-break space.
  An absent field of the body is \<open>None\<close>.\<close>

definition isWhitespace :: "char \<Rightarrow> bool" where
  "isWhitespace ch =
     (ch \<in> set [CHR 0x09, CHR 0x0A, CHR 0x0B, CHR 0x0C, CHR 0x0D, CHR 0x20, CHR 0xA0])"

definition trim :: "string \<Rightarrow> string" where
  "trim s = rev (dropWhile isWhitespace (rev (dropWhile isWhitespace s)))"

definition optionalMaxLength :: "nat \<Rightarrow> string option \<Rightarrow> bool" where
  "optionalMaxLength n v = (case v of None \<Rightarrow> True | Some s \<Rightarrow> length (trim s) \<le> n)"

definition sanitized :: "string option \<Rightarrow> string option" where
  "sanitized v = map_option trim v"

definition truthy :: "string option \<Rightarrow> bool" where
  "truthy v = (case v of None \<Rightarrow> False | Some s \<Rightarrow> s \<noteq> [])"

section \<open>POST /api/consultations\<close>

record createBody =
  body_service :: objectId
  body_consultant :: objectId
  body_scheduledDate :: date
  body_duration :: int
  body_timeSlot :: string
  body_notes :: "string option"
  body_specialRequirements :: "string option"

definition consultationValidation :: "createBody \<Rightarrow> bool" where
  "consultationValidation b =
     (15 \<le> body_duration b \<and> body_duration b \<le> 480 \<and> body_timeSlot b \<noteq> [] \<and>
      optionalMaxLength 1000 (body_notes b) \<and>
      optionalMaxLength 500 (body_specialRequirements b))"

text \<open>The filter of the conflict query: the same consultant, an equal scheduled date, an
  equal \<^verbatim>\<open>timeSlot\<close> and status \<^verbatim>\<open>scheduled\<close> or \<^verbatim>\<open>confirmed\<close>. \<^verbatim>\<open>timeSlot\<close> is no path of
  the schema: the mapper either drops that key of the filter, or sends it to the database,
  where it is compared with a field that no stored document has.\<close>

definition conflicting :: "mapper \<Rightarrow> objectId \<Rightarrow> date \<Rightarrow> string \<Rightarrow> consultation \<Rightarrow> bool" where
  "conflicting cfg k d ts c =
     (consultant c = k \<and> scheduledDate c = d \<and>
      (strictQuery cfg \<or> readName ''timeSlot'' (load c) = Some (JStr ts)) \<and>
      status c \<in> set [''scheduled'', ''confirmed''])"

text \<open>\<^verbatim>\<open>new Consultation({user, service, consultant, scheduledDate, endTime, duration,
  timeSlot, notes, specialRequirements, amount, status: 'scheduled'})\<close>: the keys
  \<^verbatim>\<open>service\<close>, \<^verbatim>\<open>timeSlot\<close>, \<^verbatim>\<open>notes\<close>, \<^verbatim>\<open>specialRequirements\<close> and \<^verbatim>\<open>amount\<close> are no paths
  and are dropped, \<^verbatim>\<open>endTime\<close> is a virtual without a setter; the paths that the object
  literal does not name take the default of the schema or stay unset.\<close>

definition newConsultation :: "actor \<Rightarrow> createBody \<Rightarrow> objectId \<Rightarrow> consultation" where
  "newConsultation usr b i =
     \<lparr>consultation_id = i,
      user = userId usr,
      consultant = body_consultant b,
      serviceType = None,
      title = None,
      description = None,
      scheduledDate = body_scheduledDate b,
      duration = body_duration b,
      status = ''scheduled'',
      price = None,
      paymentStatus = ''pending'',
      cancellationReason = None,
      consultantNotes = None,
      rating = None,
      review = None,
      updatedAt = None\<rparr>"

text \<open>The handler. After \<^verbatim>\<open>save()\<close> it populates \<^verbatim>\<open>service\<close>, which is no path of the
  schema.\<close>

definition createConsultation ::
  "mapper \<Rightarrow> date \<Rightarrow> actor \<Rightarrow> createBody \<Rightarrow> store \<Rightarrow> consultation response \<times> store" where
  "createConsultation cfg now usr b st =
     (if \<not> consultationValidation b then (failure 400 ''Validation failed'', st)
      else case find (\<lambda>s. service_id s = body_service b \<and> service_isActive s) (services st) of
        None \<Rightarrow> (failure 404 ''Service not found or inactive'', st)
      | Some serviceDoc \<Rightarrow>
         (case find (\<lambda>k. consultant_id k = body_consultant b \<and> isActive k) (consultants st) of
            None \<Rightarrow> (failure 404 ''Consultant not found or inactive'', st)
          | Some consultantDoc \<Rightarrow>
              if consultant_id consultantDoc \<noteq> service_consultant serviceDoc
              then (failure 400 ''Consultant does not offer this service'', st)
              else if body_scheduledDate b \<le> now
              then (failure 400 ''Scheduled date must be in the future'', st)
              else if find (conflicting cfg (body_consultant b) (body_scheduledDate b)
                              (body_timeSlot b)) (consultations st) \<noteq> None
              then (failure 400
                ''Consultant is not available at this time. Please choose another time slot.'',
                st)
              else let c = newConsultation usr b (newObjectId (consultations st))
                   in if \<not> validateSync c
                      then (failure 500 ''Server error while booking consultation'', st)
                      else let c' = c\<lparr>updatedAt := Some now\<rparr>;
                               st' = st\<lparr>consultations := consultations st @ [c']\<rparr>
                           in if strictPopulate cfg
                              then (failure 500 ''Server error while booking consultation'', st')
                              else (succeed 201 ''Consultation booked successfully'' c', st')))"

text \<open>The instance method \<^verbatim>\<open>hasTimeConflict\<close> of the consultation schema: it compares
  intervals, through the virtual \<^verbatim>\<open>endTime\<close>. No handler calls it.\<close>

definition virtualEndTime :: "consultation \<Rightarrow> date" where
  "virtualEndTime c = scheduledDate c + duration c * 60000"

definition hasTimeConflict :: "consultation \<Rightarrow> consultation list \<Rightarrow> bool" where
  "hasTimeConflict this cs =
     (find (\<lambda>d. consultant d = consultant this \<and>
                 scheduledDate d < virtualEndTime this \<and>
                 scheduledDate d > scheduledDate this - duration this * 60000 \<and>
                 status d \<in> set [''confirmed'', ''pending''] \<and>
                 consultation_id d \<noteq> consultation_id this) cs \<noteq> None)"

section \<open>PUT /api/consultations/:id/reschedule\<close>

record rescheduleBody =
  reschedule_scheduledDate :: date
  reschedule_timeSlot :: string
  reschedule_reason :: "string option"

definition rescheduleValidation :: "rescheduleBody \<Rightarrow> bool" where
  "rescheduleValidation b =
     (reschedule_timeSlot b \<noteq> [] \<and> optionalMaxLength 500 (reschedule_reason b))"

definition conflictingOther ::
  "mapper \<Rightarrow> consultation \<Rightarrow> date \<Rightarrow> string \<Rightarrow> consultation \<Rightarrow> bool" where
  "conflictingOther cfg c d ts x =
     (conflicting cfg (consultant c) d ts x \<and> consultation_id x \<noteq> consultation_id c)"

text \<open>The update block of the handler assigns \<^verbatim>\<open>scheduledDate\<close>, \<^verbatim>\<open>timeSlot\<close>, \<^verbatim>\<open>endTime\<close>
  and \<^verbatim>\<open>status\<close> on the loaded document and then calls
  \<^verbatim>\<open>consultation.rescheduleHistory.push\<close>. What \<^verbatim>\<open>push\<close> is called on is
  \<open>historyOf\<close> of the document after the four assignments. Reading a property of
  \<^verbatim>\<open>undefined\<close> throws, and so does calling \<^verbatim>\<open>push\<close> on a string, a number, a date, a
  boolean or an object id, which have no such method: the statements after the call
  (\<^verbatim>\<open>updatedAt\<close>, \<^verbatim>\<open>save()\<close>, the 200 response) are reached for no value of
  \<open>historyOf\<close>, and the \<^verbatim>\<open>catch\<close> block answers.\<close>

definition rescheduleAssignments ::
  "date \<Rightarrow> string \<Rightarrow> document \<Rightarrow> document" where
  "rescheduleAssignments d ts m0 =
     (let m1 = assign ''scheduledDate'' (JDate d) m0;
          m2 = assign ''timeSlot'' (JStr ts) m1;
          m3 = assign ''endTime'' (JDate (d + duration (fst m2) * 60000)) m2
      in assign ''status'' (JStr ''rescheduled'') m3)"

definition historyOf :: "document \<Rightarrow> jsValue option" where
  "historyOf m = readName ''rescheduleHistory'' m"

definition rescheduleConsultation ::
  "mapper \<Rightarrow> date \<Rightarrow> actor \<Rightarrow> objectId \<Rightarrow> rescheduleBody \<Rightarrow> store \<Rightarrow>
   consultation response \<times> store" where
  "rescheduleConsultation cfg now usr i b st =
     (if \<not> rescheduleValidation b then (failure 400 ''Validation failed'', st)
      else case findById i (consultations st) of
        None \<Rightarrow> (failure 404 ''Consultation not found'', st)
      | Some c \<Rightarrow>
          if user c \<noteq> userId usr \<and> role usr \<noteq> ''admin''
          then (failure 403 ''Not authorized to reschedule this consultation'', st)
          else if status c \<notin> set [''scheduled'', ''confirmed'']
          then (failure 400 ''Only scheduled or confirmed consultations can be rescheduled'', st)
          else if reschedule_scheduledDate b \<le> now
          then (failure 400 ''New scheduled date must be in the future'', st)
          else if find (conflictingOther cfg c (reschedule_scheduledDate b)
                          (reschedule_timeSlot b)) (consultations st) \<noteq> None
          then (failure 400
            ''Consultant is not available at this time. Please choose another time slot.'', st)
          else let m = rescheduleAssignments (reschedule_scheduledDate b)
                         (reschedule_timeSlot b) (load c)
               in case historyOf m of
                    None \<Rightarrow> (failure 500 ''Server error while rescheduling consultation'', st)
                  | Some h \<Rightarrow> (failure 500 ''Server error while rescheduling consultation'', st))"

section \<open>PUT /api/consultations/:id/status\<close>

record statusBody =
  status_status :: string
  status_cancellationReason :: "string option"

definition statusValidation :: "statusBody \<Rightarrow> bool" where
  "statusValidation b =
     (status_status b \<in> set [''confirmed'', ''cancelled'', ''completed'', ''no-show''] \<and>
      optionalMaxLength 500 (status_cancellationReason b))"

definition isAuthorized :: "actor \<Rightarrow> string \<Rightarrow> consultation \<Rightarrow> bool" where
  "isAuthorized usr s c =
     (if s = ''confirmed'' \<and> consultant c = userId usr then True
      else if s = ''cancelled''
      then (user c = userId usr \<or> consultant c = userId usr \<or> role usr = ''admin'')
      else if s = ''completed'' \<and> consultant c = userId usr then True
      else if s = ''no-show'' \<and> consultant c = userId usr then True
      else if role usr = ''admin'' then True
      else False)"

definition validTransitions :: "(string \<times> string list) list" where
  "validTransitions =
     [(''scheduled'', [''confirmed'', ''cancelled'']),
      (''confirmed'', [''completed'', ''cancelled'', ''no-show'']),
      (''rescheduled'', [''confirmed'', ''cancelled'']),
      (''cancelled'', []),
      (''completed'', []),
      (''no-show'', [])]"

text \<open>\<^verbatim>\<open>validTransitions[from]?.includes(to)\<close>: a status that is no key of the table gives
  \<^verbatim>\<open>undefined\<close>, which the handler's negation turns into a rejection. The keys are those
  of the object literal; no schema and no handler of the repository stores a status that
  names a property which every object inherits.\<close>

definition transitionAllowed :: "string \<Rightarrow> string \<Rightarrow> bool" where
  "transitionAllowed from to =
     (case map_of validTransitions from of None \<Rightarrow> False | Some ts \<Rightarrow> to \<in> set ts)"

text \<open>The update block of the handler, statement by statement, on the loaded document.
  \<^verbatim>\<open>cancelledBy\<close>, \<^verbatim>\<open>cancelledAt\<close> and \<^verbatim>\<open>completedAt\<close> are no paths of the schema.\<close>

definition statusUpdate :: "date \<Rightarrow> actor \<Rightarrow> string \<Rightarrow> string option \<Rightarrow> document \<Rightarrow> document" where
  "statusUpdate now usr s rsn m0 =
     (let m1 = assign ''status'' (JStr s) m0;
          m2 = assign ''updatedAt'' (JDate now) m1;
          m3 = (case rsn of
                  None \<Rightarrow> m2
                | Some t \<Rightarrow>
                    if s = ''cancelled'' \<and> truthy rsn
                    then assign ''cancelledAt'' (JDate now)
                           (assign ''cancelledBy'' (JId (userId usr))
                              (assign ''cancellationReason'' (JStr t) m2))
                    else m2)
      in if s = ''completed'' then assign ''completedAt'' (JDate now) m3 else m3)"

definition updateStatus ::
  "date \<Rightarrow> actor \<Rightarrow> objectId \<Rightarrow> statusBody \<Rightarrow> store \<Rightarrow> consultation response \<times> store" where
  "updateStatus now usr i b st =
     (if \<not> statusValidation b then (failure 400 ''Validation failed'', st)
      else case findById i (consultations st) of
        None \<Rightarrow> (failure 404 ''Consultation not found'', st)
      | Some c \<Rightarrow>
          if \<not> isAuthorized usr (status_status b) c
          then (failure 403 ''Not authorized to update consultation status'', st)
          else if \<not> transitionAllowed (status c) (status_status b)
          then (failure 400 (''Cannot change status from '' @ status c @ '' to '' @ status_status b),
                st)
          else let m = statusUpdate now usr (status_status b)
                          (sanitized (status_cancellationReason b)) (load c)
               in case save m (consultations st) of
                    None \<Rightarrow> (failure 500 ''Server error while updating consultation status'', st)
                  | Some cs \<Rightarrow>
                      (succeed 200 (''Consultation '' @ status_status b @ '' successfully'') (fst m),
                       st\<lparr>consultations := cs\<rparr>))"

section \<open>POST /api/consultations/:id/feedback and the rating aggregate\<close>

record feedbackBody =
  feedback_rating :: int
  feedback_feedback :: "string option"

definition feedbackValidation :: "feedbackBody \<Rightarrow> bool" where
  "feedbackValidation b =
     (1 \<le> feedback_rating b \<and> feedback_rating b \<le> 5 \<and>
      optionalMaxLength 1000 (feedback_feedback b))"

text \<open>The \<^verbatim>\<open>$match\<close> stage of \<^verbatim>\<open>updateConsultantRating\<close>: the stored ratings above 0 of
  the consultations of the consultant.\<close>

definition matchedRatings :: "objectId \<Rightarrow> consultation list \<Rightarrow> rat list" where
  "matchedRatings k cs =
     concat (map (\<lambda>c. if consultant c = k
                       then (case rating c of
                               None \<Rightarrow> []
                             | Some r \<Rightarrow> if 0 < r then [r] else [])
                       else []) cs)"

text \<open>The Consultant schema and \<^verbatim>\<open>Consultant.findByIdAndUpdate(id, update)\<close>: the keys of the
  update that are no paths of the schema are dropped, the others are set. Of the declared
  paths the record has \<^verbatim>\<open>isActive\<close> and \<^verbatim>\<open>approvalStatus\<close>.\<close>

definition consultantPaths :: "string list" where
  "consultantPaths =
     [''_id'', ''user'', ''name'', ''email'', ''isActive'', ''approvalStatus'',
      ''specialization'', ''bio'', ''createdAt'']"

definition setConsultantPath :: "string \<Rightarrow> jsValue \<Rightarrow> consultantDoc \<Rightarrow> consultantDoc" where
  "setConsultantPath p v d =
     (if p = ''isActive'' then (case v of JBool b \<Rightarrow> d\<lparr>isActive := b\<rparr> | _ \<Rightarrow> d)
      else if p = ''approvalStatus''
      then (case v of JStr s \<Rightarrow> d\<lparr>approvalStatus := s\<rparr> | _ \<Rightarrow> d)
      else d)"

definition findByIdAndUpdate ::
  "objectId \<Rightarrow> (string \<times> jsValue) list \<Rightarrow> consultantDoc list \<Rightarrow> consultantDoc list" where
  "findByIdAndUpdate k upd ds =
     map (\<lambda>d. if consultant_id d = k
               then fold (case_prod setConsultantPath)
                      (filter (\<lambda>pv. fst pv \<in> set consultantPaths) upd) d
               else d) ds"

text \<open>\<^verbatim>\<open>updateConsultantRating\<close>. The value \<^verbatim>\<open>parseFloat(averageRating.toFixed(1))\<close> is
  computed on binary floating point from the \<^verbatim>\<open>$avg\<close> of the matched ratings; the embedding
  takes it as a function \<open>rounded\<close> of the matched ratings. The function catches its own
  errors.\<close>

definition updateConsultantRating :: "(rat list \<Rightarrow> rat) \<Rightarrow> objectId \<Rightarrow> store \<Rightarrow> store" where
  "updateConsultantRating rounded k st =
     (let ratingStats = matchedRatings k (consultations st)
      in if ratingStats \<noteq> []
         then st\<lparr>consultants :=
                  findByIdAndUpdate k
                    [(''rating'', JNum (rounded ratingStats)),
                     (''totalRatings'', JNum (of_nat (length ratingStats)))]
                    (consultants st)\<rparr>
         else st)"

text \<open>The update block of the feedback handler. \<^verbatim>\<open>feedback\<close>, \<^verbatim>\<open>feedbackProvided\<close> and
  \<^verbatim>\<open>feedbackDate\<close> are no paths of the schema.\<close>

definition feedbackUpdate :: "date \<Rightarrow> int \<Rightarrow> string option \<Rightarrow> document \<Rightarrow> document" where
  "feedbackUpdate now r fb m0 =
     (let m1 = assign ''rating'' (JNum (of_int r)) m0;
          m2 = (case fb of None \<Rightarrow> m1 | Some t \<Rightarrow> assign ''feedback'' (JStr t) m1);
          m3 = assign ''feedbackProvided'' (JBool True) m2;
          m4 = assign ''feedbackDate'' (JDate now) m3
      in assign ''updatedAt'' (JDate now) m4)"

definition addFeedback ::
  "(rat list \<Rightarrow> rat) \<Rightarrow> date \<Rightarrow> actor \<Rightarrow> objectId \<Rightarrow> feedbackBody \<Rightarrow> store \<Rightarrow>
   consultation response \<times> store" where
  "addFeedback rounded now usr i b st =
     (if \<not> feedbackValidation b then (failure 400 ''Validation failed'', st)
      else case findById i (consultations st) of
        None \<Rightarrow> (failure 404 ''Consultation not found'', st)
      | Some c \<Rightarrow>
          if user c \<noteq> userId usr
          then (failure 403 ''Not authorized to provide feedback for this consultation'', st)
          else if status c \<noteq> ''completed''
          then (failure 400 ''Feedback can only be provided for completed consultations'', st)
          else if truthyValue (readName ''feedbackProvided'' (load c))
          then (failure 400 ''Feedback already provided for this consultation'', st)
          else let m = feedbackUpdate now (feedback_rating b)
                         (sanitized (feedback_feedback b)) (load c)
               in case save m (consultations st) of
                    None \<Rightarrow> (failure 500 ''Server error while submitting feedback'', st)
                  | Some cs \<Rightarrow>
                      (succeed 200 ''Feedback submitted successfully'' (fst m),
                       updateConsultantRating rounded (consultant (fst m))
                         (st\<lparr>consultations := cs\<rparr>)))"

section \<open>The consultation controller\<close>

text \<open>The controller file declares its own handler for
  \<^verbatim>\<open>PUT /api/consultations/:id/status\<close>, \<^verbatim>\<open>updateConsultationStatus\<close>, and the handler
  \<^verbatim>\<open>rateConsultation\<close> for \<^verbatim>\<open>POST /api/consultations/:id/rating\<close>. They work on the same
  model; the requester is \<^verbatim>\<open>req.user.id\<close>. The body of the status request carries a
  status string.\<close>

record controllerStatusBody =
  ctl_status :: string
  ctl_scheduledDate :: "date option"
  ctl_scheduledTime :: "string option"
  ctl_notes :: "string option"
  ctl_price :: "rat option"

definition updateData :: "date \<Rightarrow> controllerStatusBody \<Rightarrow> (string \<times> jsValue) list" where
  "updateData now b =
     [(''status'', JStr (ctl_status b))] @
     (case ctl_scheduledDate b of None \<Rightarrow> [] | Some d \<Rightarrow> [(''scheduledDate'', JDate d)]) @
     (case ctl_scheduledTime b of
        None \<Rightarrow> []
      | Some t \<Rightarrow> if t = [] then [] else [(''scheduledTime'', JStr t)]) @
     (case ctl_notes b of
        None \<Rightarrow> []
      | Some t \<Rightarrow> if t = [] then [] else [(''consultantNotes'', JStr t)]) @
     (case ctl_price b of
        None \<Rightarrow> []
      | Some p \<Rightarrow> if p = 0 then [] else [(''price'', JNum p)]) @
     (if ctl_status b = ''confirmed'' then [(''confirmedAt'', JDate now)]
      else if ctl_status b = ''completed'' then [(''completedAt'', JDate now)]
      else if ctl_status b = ''cancelled'' then [(''cancelledAt'', JDate now)]
      else [])"

text \<open>\<^verbatim>\<open>Consultation.findByIdAndUpdate(id, updateData, {new: true, runValidators: true})\<close>:
  the keys that are no paths are dropped, the schema's \<^verbatim>\<open>timestamps\<close> option adds
  \<^verbatim>\<open>updatedAt\<close>, and the validators of the updated paths run (the enum of \<^verbatim>\<open>status\<close>, the
  minimum of \<^verbatim>\<open>price\<close>).\<close>

definition castUpdate :: "date \<Rightarrow> (string \<times> jsValue) list \<Rightarrow> (string \<times> jsValue) list" where
  "castUpdate now upd =
     filter (\<lambda>pv. fst pv \<in> set consultationPaths) upd @ [(''updatedAt'', JDate now)]"

definition validUpdate :: "string \<times> jsValue \<Rightarrow> bool" where
  "validUpdate pv =
     (if fst pv = ''status''
      then (case snd pv of JStr s \<Rightarrow> s \<in> set statusEnum | _ \<Rightarrow> True)
      else if fst pv = ''price''
      then (case snd pv of JNum n \<Rightarrow> 0 \<le> n | _ \<Rightarrow> True)
      else True)"

text \<open>The handler. The update is executed before the query populates \<^verbatim>\<open>client\<close>, which is
  no path of the schema: the population throws or is skipped, and when it is skipped the
  confirmation branch reads \<^verbatim>\<open>updatedConsultation.client.email\<close> and throws.\<close>

definition updateConsultationStatus ::
  "mapper \<Rightarrow> date \<Rightarrow> objectId \<Rightarrow> objectId \<Rightarrow> controllerStatusBody \<Rightarrow> store \<Rightarrow>
   consultation response \<times> store" where
  "updateConsultationStatus cfg now requester i b st =
     (case findById i (consultations st) of
        None \<Rightarrow> (failure 404 ''Consultation not found'', st)
      | Some c \<Rightarrow>
          if consultant c \<noteq> requester
          then (failure 403 ''Not authorized to update this consultation'', st)
          else let upd = castUpdate now (updateData now b)
               in if \<not> list_all validUpdate upd
                  then (failure 500 ''Server error while updating consultation status'', st)
                  else let c' = fold (case_prod setPath) upd c;
                           st' = st\<lparr>consultations := replace c' (consultations st)\<rparr>
                       in if strictPopulate cfg
                          then (failure 500 ''Server error while updating consultation status'',
                                st')
                          else if ctl_status b = ''confirmed''
                          then (failure 500 ''Server error while updating consultation status'',
                                st')
                          else (succeed 200
                                  (''Consultation '' @ ctl_status b @ '' successfully'') c',
                                st'))"

record ratingBody =
  rate_rating :: rat
  rate_review :: "string option"

text \<open>\<^verbatim>\<open>rateConsultation\<close> reads \<^verbatim>\<open>consultation.client.toString()\<close>; \<^verbatim>\<open>client\<close>,
  \<^verbatim>\<open>clientRating\<close>, \<^verbatim>\<open>clientReview\<close> and \<^verbatim>\<open>ratedAt\<close> are no paths of the schema. The
  aggregation after \<^verbatim>\<open>save()\<close> matches the stored documents that have a field
  \<^verbatim>\<open>clientRating\<close>: there are none, and the consultant's user document is not updated.\<close>

definition rateConsultation ::
  "date \<Rightarrow> objectId \<Rightarrow> objectId \<Rightarrow> ratingBody \<Rightarrow> store \<Rightarrow> consultation response \<times> store" where
  "rateConsultation now requester i b st =
     (case findById i (consultations st) of
        None \<Rightarrow> (failure 404 ''Consultation not found'', st)
      | Some c \<Rightarrow>
         (case readName ''client'' (load c) of
            None \<Rightarrow> (failure 500 ''Server error while rating consultation'', st)
          | Some v \<Rightarrow>
              if v \<noteq> JId requester
              then (failure 403 ''Not authorized to rate this consultation'', st)
              else if status c \<noteq> ''completed''
              then (failure 400 ''Can only rate completed consultations'', st)
              else let m1 = assign ''clientRating'' (JNum (rate_rating b)) (load c);
                       m2 = (case rate_review b of
                               None \<Rightarrow> m1
                             | Some t \<Rightarrow> assign ''clientReview'' (JStr t) m1);
                       m3 = assign ''ratedAt'' (JDate now) m2
                   in case save m3 (consultations st) of
                        None \<Rightarrow> (failure 500 ''Server error while rating consultation'', st)
                      | Some cs \<Rightarrow>
                          (succeed 200 ''Consultation rated successfully'' (fst m3),
                           st\<lparr>consultations := cs\<rparr>)))"

section \<open>POST /api/courses/:id/enroll\<close>












section \<open>The specification's transition table\<close>

text \<open>The transition table as the specification words it, to be compared with
  \<open>validTransitions\<close> of the handler.\<close>

definition specTransitionTable :: "(string \<times> string) set" where
  "specTransitionTable =
     {(''scheduled'', ''confirmed''), (''scheduled'', ''cancelled''),
      (''confirmed'', ''completed''), (''confirmed'', ''cancelled''), (''confirmed'', ''no-show''),
      (''rescheduled'', ''confirmed''), (''rescheduled'', ''cancelled'')}"

text \<open>The target statuses the validator of the status route admits.\<close>

definition admittedTargets :: "string set" where
  "admittedTargets = {''confirmed'', ''cancelled'', ''completed'', ''no-show''}"

section \<open>Example data\<close>

text \<open>Consultant 2 (active, approved) offers service 3 at price 50; client 7, admin 9. A
  stored consultation is the one that the seed script of the repository inserts (client,
  consultant, service type \<^verbatim>\<open>web-development\<close>, title, description, 60 minutes, price 100),
  at a given date and status, last written at the clock reading of the examples. The clock
  reads 2025-05-01T00:00Z; the dates of the scenarios are 2025-06-01 at 10:00, 10:30 and
  11:00 UTC.\<close>

definition may1 :: date where "may1 = 1746057600000"
definition jun1_1000 :: date where "jun1_1000 = 1748772000000"
definition jun1_1030 :: date where "jun1_1030 = 1748773800000"
definition jun1_1100 :: date where "jun1_1100 = 1748775600000"

definition exampleClient :: actor where
  "exampleClient = \<lparr>userId = 7, role = ''student''\<rparr>"

definition exampleConsultantUser :: actor where
  "exampleConsultantUser = \<lparr>userId = 2, role = ''consultant''\<rparr>"

definition exampleAdmin :: actor where
  "exampleAdmin = \<lparr>userId = 9, role = ''admin''\<rparr>"

definition exampleMapper :: "bool \<Rightarrow> mapper" where
  "exampleMapper strict = \<lparr>strictQuery = strict, strictPopulate = strict\<rparr>"

definition seeded :: "objectId \<Rightarrow> date \<Rightarrow> string \<Rightarrow> consultation" where
  "seeded i d s =
     \<lparr>consultation_id = i, user = 7, consultant = 2,
      serviceType = Some ''web-development'',
      title = Some ''Intro Consultation for Jane'',
      description = Some ''Initial consultation to discuss project scope.'',
      scheduledDate = d, duration = 60, status = s,
      price = Some 100, paymentStatus = ''pending'',
      cancellationReason = None, consultantNotes = None, rating = None, review = None,
      updatedAt = Some may1\<rparr>"

definition calendarWith :: "consultation list \<Rightarrow> store" where
  "calendarWith cs =
     \<lparr>consultations = cs,
      consultants = [\<lparr>consultant_id = 2, isActive = True, approvalStatus = ''approved''\<rparr>],
      services = [\<lparr>service_id = 3, service_consultant = 2, service_isActive = True,
                   service_price = 50\<rparr>]\<rparr>"

definition booking :: "date \<Rightarrow> string \<Rightarrow> createBody" where
  "booking d ts =
     \<lparr>body_service = 3, body_consultant = 2, body_scheduledDate = d, body_duration = 60,
      body_timeSlot = ts, body_notes = None, body_specialRequirements = None\<rparr>"

definition setStatus :: "string \<Rightarrow> string option \<Rightarrow> statusBody" where
  "setStatus s rsn = \<lparr>status_status = s, status_cancellationReason = rsn\<rparr>"

definition moveTo :: "date \<Rightarrow> string \<Rightarrow> string option \<Rightarrow> rescheduleBody" where
  "moveTo d ts rsn =
     \<lparr>reschedule_scheduledDate = d, reschedule_timeSlot = ts, reschedule_reason = rsn\<rparr>"

definition rate :: "int \<Rightarrow> string option \<Rightarrow> feedbackBody" where
  "rate r fb = \<lparr>feedback_rating = r, feedback_feedback = fb\<rparr>"

definition statusOnly :: "string \<Rightarrow> controllerStatusBody" where
  "statusOnly s =
     \<lparr>ctl_status = s, ctl_scheduledDate = None, ctl_scheduledTime = None, ctl_notes = None,
      ctl_price = None\<rparr>"



section \<open>Evaluation and lookup lemmas\<close>

lemma failure_simps:
  "statusCode (failure c m) = c" "success (failure c m) = False" "message (failure c m) = m"
  "payload (failure c m) = None"
  by (simp_all add: failure_def)

lemma succeed_simps:
  "statusCode (succeed c m d) = c" "success (succeed c m d) = True" "message (succeed c m d) = m"
  "payload (succeed c m d) = Some d"
  by (simp_all add: succeed_def)

lemma find_Some_holds: "find P xs = Some x \<Longrightarrow> P x \<and> x \<in> set xs"
  by (induction xs) (auto split: if_splits)

lemmas example_defs =
  may1_def jun1_1000_def jun1_1030_def jun1_1100_def exampleClient_def
  exampleConsultantUser_def exampleAdmin_def seeded_def calendarWith_def

lemma assign_path: "p \<in> set consultationPaths \<Longrightarrow> assign p v m = (setPath p v (fst m), snd m)"
  by (simp add: assign_def)

lemma assign_other: "p \<notin> set consultationPaths \<Longrightarrow> fst (assign p v m) = fst m"
  by (simp add: assign_def)

lemma declared_paths:
  "''status'' \<in> set consultationPaths" "''updatedAt'' \<in> set consultationPaths"
  "''cancellationReason'' \<in> set consultationPaths" "''rating'' \<in> set consultationPaths"
  "''scheduledDate'' \<in> set consultationPaths"
  by (simp_all add: consultationPaths_def)

lemma undeclared_names:
  "''timeSlot'' \<notin> set consultationPaths" "''rescheduleHistory'' \<notin> set consultationPaths"
  "''cancelledBy'' \<notin> set consultationPaths" "''cancelledAt'' \<notin> set consultationPaths"
  "''completedAt'' \<notin> set consultationPaths" "''feedback'' \<notin> set consultationPaths"
  "''feedbackProvided'' \<notin> set consultationPaths" "''feedbackDate'' \<notin> set consultationPaths"
  "''client'' \<notin> set consultationPaths" "''service'' \<notin> set consultationPaths"
  "''amount'' \<notin> set consultationPaths" "''endTime'' \<notin> set consultationPaths"
  by (simp_all add: consultationPaths_def)

section \<open>Updating the status\<close>

lemma transitionAllowed_table: "transitionAllowed f t \<longleftrightarrow> (f, t) \<in> specTransitionTable"
  by (auto simp: transitionAllowed_def validTransitions_def specTransitionTable_def split: if_splits)

lemma statusUpdate_fst:
  "fst (statusUpdate now usr s rsn (load c)) =
     (if s = ''cancelled'' \<and> truthy rsn
      then c\<lparr>status := s, updatedAt := Some now, cancellationReason := rsn\<rparr>
      else c\<lparr>status := s, updatedAt := Some now\<rparr>)"
  by (cases rsn)
     (simp_all add: statusUpdate_def Let_def assign_path assign_other declared_paths
        undeclared_names setPath_def load_def truthy_def)

lemma statusUpdate_snd:
  "snd (statusUpdate now usr s rsn (load c)) =
     (if s = ''completed'' then [(''completedAt'', JDate now)] else []) @
     (if s = ''cancelled'' \<and> truthy rsn
      then [(''cancelledAt'', JDate now), (''cancelledBy'', JId (userId usr))] else [])"
  by (cases rsn)
     (simp_all add: statusUpdate_def Let_def assign_def declared_paths
        undeclared_names consultationVirtuals_def load_def truthy_def)

lemma updateStatus_success_find:
  assumes "updateStatus now usr i b st = (r, st')" and "success r"
  shows "statusValidation b \<and> (\<exists>c. findById i (consultations st) = Some c \<and>
     isAuthorized usr (status_status b) c \<and> transitionAllowed (status c) (status_status b) \<and>
     validateSync (fst (statusUpdate now usr (status_status b)
                          (sanitized (status_cancellationReason b)) (load c))) \<and>
     r = succeed 200 (''Consultation '' @ status_status b @ '' successfully'')
           (fst (statusUpdate now usr (status_status b)
                   (sanitized (status_cancellationReason b)) (load c))) \<and>
     st' = st\<lparr>consultations :=
               replace (fst (statusUpdate now usr (status_status b)
                               (sanitized (status_cancellationReason b)) (load c)))
                 (consultations st)\<rparr>)"
  using assms
  by (auto simp: updateStatus_def failure_def save_def Let_def split: if_splits option.splits)

lemma updateStatus_failure_unchanged:
  assumes "updateStatus now usr i b st = (r, st')" and "\<not> success r"
  shows "st' = st"
  using assms
  by (auto simp: updateStatus_def succeed_def save_def Let_def split: if_splits option.splits)

lemma set_replace: "d \<in> set (replace c cs) \<Longrightarrow> d = c \<or> d \<in> set cs"
  by (auto simp: replace_def split: if_splits)

lemma statusUpdate_status: "status (fst (statusUpdate now usr s rsn (load c))) = s"
  by (simp add: statusUpdate_fst)

lemmas status_defs =
  Let_def updateStatus_def statusValidation_def optionalMaxLength_def isAuthorized_def
  transitionAllowed_def validTransitions_def statusUpdate_fst sanitized_def truthy_def
  findById_def save_def replace_def validateSync_def requiredString_def maxlength_def
  serviceTypeEnum_def durationEnum_def statusEnum_def paymentStatusEnum_def

lemma complete_confirmed:
  "updateStatus may1 exampleConsultantUser 11 (setStatus ''completed'' None)
             (calendarWith [seeded 11 jun1_1000 ''confirmed'']) =
          (succeed 200 ''Consultation completed successfully''
             (seeded 11 jun1_1000 ''completed''),
           calendarWith [seeded 11 jun1_1000 ''completed''])"
  by (simp add: status_defs example_defs setStatus_def succeed_def)

lemma confirm_confirmed_rejected:
  "updateStatus may1 exampleConsultantUser 11 (setStatus ''confirmed'' None)
             (calendarWith [seeded 11 jun1_1000 ''confirmed'']) =
          (failure 400 ''Cannot change status from confirmed to confirmed'',
           calendarWith [seeded 11 jun1_1000 ''confirmed''])"
  by (simp add: status_defs example_defs setStatus_def failure_def)

lemma invalid_target_rejected:
  "updateStatus may1 exampleAdmin 11 (setStatus ''scheduled'' None)
             (calendarWith [seeded 11 jun1_1000 ''confirmed'']) =
          (failure 400 ''Validation failed'',
           calendarWith [seeded 11 jun1_1000 ''confirmed''])"
  by (simp add: status_defs example_defs setStatus_def failure_def)

lemma client_confirm_unauthorized:
  "updateStatus may1 exampleClient 11 (setStatus ''confirmed'' None)
             (calendarWith [seeded 11 jun1_1000 ''confirmed'']) =
          (failure 403 ''Not authorized to update consultation status'',
           calendarWith [seeded 11 jun1_1000 ''confirmed''])"
  by (simp add: status_defs example_defs setStatus_def failure_def)

lemma no_show_fails:
  "updateStatus may1 exampleConsultantUser 11 (setStatus ''no-show'' None)
             (calendarWith [seeded 11 jun1_1000 ''confirmed'']) =
          (failure 500 ''Server error while updating consultation status'',
           calendarWith [seeded 11 jun1_1000 ''confirmed''])"
  by (simp add: status_defs example_defs setStatus_def failure_def)

lemma cancel_with_reason:
  "updateStatus may1 exampleClient 11 (setStatus ''cancelled'' (Some '' ill ''))
             (calendarWith [seeded 11 jun1_1000 ''confirmed'']) =
          (succeed 200 ''Consultation cancelled successfully''
             ((seeded 11 jun1_1000 ''cancelled'')
                \<lparr>cancellationReason := Some ''ill''\<rparr>),
           calendarWith [(seeded 11 jun1_1000 ''cancelled'')
                \<lparr>cancellationReason := Some ''ill''\<rparr>])"
  by (simp add: status_defs example_defs setStatus_def succeed_def trim_def isWhitespace_def)

lemma statusValidation_target: "statusValidation b \<Longrightarrow> status_status b \<in> admittedTargets"
  by (simp add: statusValidation_def admittedTargets_def)

lemma updateStatus_invalid_target:
  "status_status b \<notin> admittedTargets \<Longrightarrow>
   updateStatus now usr i b st = (failure 400 ''Validation failed'', st)"
  by (simp add: updateStatus_def statusValidation_def admittedTargets_def)

lemma updateStatus_docs:
  assumes "d \<in> set (consultations (snd (updateStatus now usr i b st)))"
  shows "d \<in> set (consultations st) \<or> status d \<in> admittedTargets"
proof (cases "success (fst (updateStatus now usr i b st))")
  case True
  from updateStatus_success_find[OF prod.collapse[symmetric] True] obtain c where
    v: "statusValidation b" and
    s: "snd (updateStatus now usr i b st) = st\<lparr>consultations :=
               replace (fst (statusUpdate now usr (status_status b)
                               (sanitized (status_cancellationReason b)) (load c)))
                 (consultations st)\<rparr>"
    by blast
  from assms s have "d \<in> set (replace (fst (statusUpdate now usr (status_status b)
                               (sanitized (status_cancellationReason b)) (load c)))
                 (consultations st))" by simp
  from set_replace[OF this] show ?thesis
    using statusValidation_target[OF v] statusUpdate_status by metis
next
  case False
  from updateStatus_failure_unchanged[OF prod.collapse[symmetric] False] assms show ?thesis by simp
qed

text \<open>
  Claim C2 (as amended). On the status route of the consultation routes, for a consultation
  that exists: a status update succeeds only if the pair of current and requested status is
  in the transition table of the specification; a pair outside the table is rejected and
  leaves the store as it was; when the request has passed validation and the requester is
  authorized for the requested status, the rejection of such a pair is the 400 response whose
  message is \<^verbatim>\<open>Cannot change status from <current> to <requested>\<close>; a request that fails
  validation (a target outside \<^verbatim>\<open>confirmed\<close>, \<^verbatim>\<open>cancelled\<close>, \<^verbatim>\<open>completed\<close>,
  \<^verbatim>\<open>no-show\<close>, or a cancellation reason of more than 500 characters after trimming) is
  answered \<^verbatim>\<open>400 Validation failed\<close>, and a valid request of a requester who is not
  authorized for the target is answered \<^verbatim>\<open>403 Not authorized to update consultation status\<close>,
  both with the store unchanged.
\<close>

theorem updateStatus_transition_table:
  assumes "updateStatus now usr i b st = (r, st')" and "findById i (consultations st) = Some c"
  shows "(success r \<longrightarrow> (status c, status_status b) \<in> specTransitionTable) \<and>
         ((status c, status_status b) \<notin> specTransitionTable \<longrightarrow> \<not> success r \<and> st' = st) \<and>
         ((status c, status_status b) \<notin> specTransitionTable \<and> statusValidation b \<and>
            isAuthorized usr (status_status b) c \<longrightarrow>
          r = failure 400 (''Cannot change status from '' @ status c @ '' to '' @ status_status b)) \<and>
         (\<not> statusValidation b \<longrightarrow> r = failure 400 ''Validation failed'' \<and> st' = st) \<and>
         (statusValidation b \<and> \<not> isAuthorized usr (status_status b) c \<longrightarrow>
          r = failure 403 ''Not authorized to update consultation status'' \<and> st' = st)"
proof -
  have a: "(status c, status_status b) \<in> specTransitionTable" if "success r"
    using updateStatus_success_find[OF assms(1) that] assms(2)
    by (auto simp: transitionAllowed_table)
  have b: "st' = st" if "\<not> success r"
    using updateStatus_failure_unchanged[OF assms(1) that] .
  have c: "r = failure 400 (''Cannot change status from '' @ status c @ '' to '' @ status_status b)"
    if "(status c, status_status b) \<notin> specTransitionTable" "statusValidation b"
       "isAuthorized usr (status_status b) c"
    using assms that by (simp add: updateStatus_def transitionAllowed_table)
  have d: "r = failure 400 ''Validation failed'' \<and> st' = st" if "\<not> statusValidation b"
    using assms(1) that by (simp add: updateStatus_def)
  have e: "r = failure 403 ''Not authorized to update consultation status'' \<and> st' = st"
    if "statusValidation b" "\<not> isAuthorized usr (status_status b) c"
    using assms that by (simp add: updateStatus_def)
  from a b c d e show ?thesis by blast
qed

theorem updateStatus_transition_table_witness:
  "updateStatus may1 exampleConsultantUser 11 (setStatus ''completed'' None)
       (calendarWith [seeded 11 jun1_1000 ''confirmed'']) =
     (succeed 200 ''Consultation completed successfully''
        (seeded 11 jun1_1000 ''completed''),
      calendarWith [seeded 11 jun1_1000 ''completed'']) \<and>
   (status (seeded 11 jun1_1000 ''confirmed''), status_status (setStatus ''completed'' None))
     \<in> specTransitionTable \<and>
   (status (seeded 11 jun1_1000 ''confirmed''), status_status (setStatus ''confirmed'' None))
     \<notin> specTransitionTable \<and>
   statusValidation (setStatus ''confirmed'' None) \<and>
   isAuthorized exampleConsultantUser (status_status (setStatus ''confirmed'' None))
     (seeded 11 jun1_1000 ''confirmed'') \<and>
   updateStatus may1 exampleConsultantUser 11 (setStatus ''confirmed'' None)
       (calendarWith [seeded 11 jun1_1000 ''confirmed'']) =
     (failure 400 ''Cannot change status from confirmed to confirmed'',
      calendarWith [seeded 11 jun1_1000 ''confirmed'']) \<and>
   \<not> statusValidation (setStatus ''scheduled'' None) \<and>
   updateStatus may1 exampleAdmin 11 (setStatus ''scheduled'' None)
       (calendarWith [seeded 11 jun1_1000 ''confirmed'']) =
     (failure 400 ''Validation failed'', calendarWith [seeded 11 jun1_1000 ''confirmed'']) \<and>
   \<not> isAuthorized exampleClient (status_status (setStatus ''confirmed'' None))
       (seeded 11 jun1_1000 ''confirmed'') \<and>
   updateStatus may1 exampleClient 11 (setStatus ''confirmed'' None)
       (calendarWith [seeded 11 jun1_1000 ''confirmed'']) =
     (failure 403 ''Not authorized to update consultation status'',
      calendarWith [seeded 11 jun1_1000 ''confirmed''])"
proof -
  let ?st = "calendarWith [seeded 11 jun1_1000 ''confirmed'']"
  let ?c = "seeded 11 jun1_1000 ''confirmed''"
  have f: "findById 11 (consultations ?st) = Some ?c"
    by (simp add: findById_def example_defs)
  have ok: "success (succeed 200 ''Consultation completed successfully''
              (seeded 11 jun1_1000 ''completed''))"
    by (simp add: succeed_def)
  have out: "(status ?c, status_status (setStatus ''confirmed'' None)) \<notin> specTransitionTable"
    by (simp add: specTransitionTable_def setStatus_def seeded_def)
  have v: "statusValidation (setStatus ''confirmed'' None)"
    by (simp add: statusValidation_def setStatus_def optionalMaxLength_def)
  have a: "isAuthorized exampleConsultantUser (status_status (setStatus ''confirmed'' None)) ?c"
    by (simp add: isAuthorized_def setStatus_def example_defs)
  have nv: "\<not> statusValidation (setStatus ''scheduled'' None)"
    by (simp add: statusValidation_def setStatus_def)
  have na: "\<not> isAuthorized exampleClient (status_status (setStatus ''confirmed'' None)) ?c"
    by (simp add: isAuthorized_def setStatus_def example_defs)
  from updateStatus_transition_table[OF complete_confirmed f] ok
  have w1: "(status ?c, status_status (setStatus ''completed'' None)) \<in> specTransitionTable"
    by blast
  from updateStatus_transition_table[OF prod.collapse[symmetric] f,
      of may1 exampleConsultantUser "setStatus ''confirmed'' None"] out v a
  have w2: "updateStatus may1 exampleConsultantUser 11 (setStatus ''confirmed'' None) ?st =
        (failure 400 (''Cannot change status from '' @ status ?c @ '' to '' @
           status_status (setStatus ''confirmed'' None)), ?st)"
    by (metis prod.collapse)
  from updateStatus_transition_table[OF prod.collapse[symmetric] f,
      of may1 exampleAdmin "setStatus ''scheduled'' None"] nv
  have w3: "updateStatus may1 exampleAdmin 11 (setStatus ''scheduled'' None) ?st =
        (failure 400 ''Validation failed'', ?st)"
    by (metis prod.collapse)
  from updateStatus_transition_table[OF prod.collapse[symmetric] f,
      of may1 exampleClient "setStatus ''confirmed'' None"] v na
  have w4: "updateStatus may1 exampleClient 11 (setStatus ''confirmed'' None) ?st =
        (failure 403 ''Not authorized to update consultation status'', ?st)"
    by (metis prod.collapse)
  from w2 have w2': "updateStatus may1 exampleConsultantUser 11 (setStatus ''confirmed'' None) ?st =
        (failure 400 ''Cannot change status from confirmed to confirmed'', ?st)"
    by (simp add: seeded_def setStatus_def)
  from complete_confirmed w1 out v a w2' nv w3 na w4 show ?thesis by blast
qed

lemmas controller_defs =
  Let_def updateConsultationStatus_def updateData_def castUpdate_def validUpdate_def
  consultationPaths_def statusEnum_def setPath_def findById_def replace_def statusOnly_def

lemma controller_cancels_completed:
  "updateConsultationStatus cfg may1 2 11 (statusOnly ''cancelled'')
       (calendarWith [seeded 11 jun1_1000 ''completed'']) =
     ((if strictPopulate cfg
       then failure 500 ''Server error while updating consultation status''
       else succeed 200 ''Consultation cancelled successfully''
              (seeded 11 jun1_1000 ''cancelled'')),
      calendarWith [seeded 11 jun1_1000 ''cancelled''])"
  by (simp add: controller_defs example_defs)

lemma controller_sets_pending:
  "updateConsultationStatus cfg may1 2 11 (statusOnly ''pending'')
       (calendarWith [seeded 11 jun1_1000 ''confirmed'']) =
     ((if strictPopulate cfg
       then failure 500 ''Server error while updating consultation status''
       else succeed 200 ''Consultation pending successfully''
              (seeded 11 jun1_1000 ''pending'')),
      calendarWith [seeded 11 jun1_1000 ''pending''])"
  by (simp add: controller_defs example_defs)

lemma controller_sets_rescheduled:
  "updateConsultationStatus cfg may1 2 11 (statusOnly ''rescheduled'')
       (calendarWith [seeded 11 jun1_1000 ''confirmed'']) =
     ((if strictPopulate cfg
       then failure 500 ''Server error while updating consultation status''
       else succeed 200 ''Consultation rescheduled successfully''
              (seeded 11 jun1_1000 ''rescheduled'')),
      calendarWith [seeded 11 jun1_1000 ''rescheduled''])"
  by (simp add: controller_defs example_defs)

lemma controller_rejects_unknown_status:
  "updateConsultationStatus cfg may1 2 11 (statusOnly ''scheduled'')
       (calendarWith [seeded 11 jun1_1000 ''confirmed'']) =
     (failure 500 ''Server error while updating consultation status'',
      calendarWith [seeded 11 jun1_1000 ''confirmed''])"
  by (simp add: controller_defs example_defs failure_def)

theorem updateStatus_rejection_counterexample:
  "(''confirmed'', ''scheduled'') \<notin> specTransitionTable \<and>
   updateStatus may1 exampleAdmin 11 (setStatus ''scheduled'' None)
       (calendarWith [seeded 11 jun1_1000 ''confirmed'']) =
     (failure 400 ''Validation failed'',
      calendarWith [seeded 11 jun1_1000 ''confirmed'']) \<and>
   (''confirmed'', ''confirmed'') \<notin> specTransitionTable \<and>
   updateStatus may1 exampleClient 11 (setStatus ''confirmed'' None)
       (calendarWith [seeded 11 jun1_1000 ''confirmed'']) =
     (failure 403 ''Not authorized to update consultation status'',
      calendarWith [seeded 11 jun1_1000 ''confirmed'']) \<and>
   (''completed'', ''cancelled'') \<notin> specTransitionTable \<and>
   (\<forall>cfg. snd (updateConsultationStatus cfg may1 2 11 (statusOnly ''cancelled'')
                 (calendarWith [seeded 11 jun1_1000 ''completed''])) =
          calendarWith [seeded 11 jun1_1000 ''cancelled'']) \<and>
   fst (updateConsultationStatus (exampleMapper False) may1 2 11 (statusOnly ''cancelled'')
          (calendarWith [seeded 11 jun1_1000 ''completed''])) =
     succeed 200 ''Consultation cancelled successfully''
       (seeded 11 jun1_1000 ''cancelled'')"
  using invalid_target_rejected client_confirm_unauthorized
  by (simp add: specTransitionTable_def controller_cancels_completed exampleMapper_def)

text \<open>
  Claim C10 (as amended). The status route of the consultation routes succeeds only for the
  targets \<^verbatim>\<open>confirmed\<close>, \<^verbatim>\<open>cancelled\<close>, \<^verbatim>\<open>completed\<close> and \<^verbatim>\<open>no-show\<close>; any other requested
  status is answered by the validation failure and the store is unchanged. Hence every
  consultation that this route leaves with status \<^verbatim>\<open>scheduled\<close>, \<^verbatim>\<open>pending\<close> or
  \<^verbatim>\<open>rescheduled\<close> was already stored so.
\<close>

theorem status_endpoint_targets:
  "(success (fst (updateStatus now usr i b st)) \<longrightarrow> status_status b \<in> admittedTargets) \<and>
   (status_status b \<notin> admittedTargets \<longrightarrow>
      updateStatus now usr i b st = (failure 400 ''Validation failed'', st)) \<and>
   (\<forall>d \<in> set (consultations (snd (updateStatus now usr i b st))).
      status d \<in> {''scheduled'', ''pending'', ''rescheduled''} \<longrightarrow> d \<in> set (consultations st))"
proof (intro conjI)
  show "success (fst (updateStatus now usr i b st)) \<longrightarrow> status_status b \<in> admittedTargets"
    using updateStatus_success_find[OF prod.collapse[symmetric]] statusValidation_target by blast
  show "status_status b \<notin> admittedTargets \<longrightarrow>
      updateStatus now usr i b st = (failure 400 ''Validation failed'', st)"
    using updateStatus_invalid_target by blast
  show "\<forall>d \<in> set (consultations (snd (updateStatus now usr i b st))).
      status d \<in> {''scheduled'', ''pending'', ''rescheduled''} \<longrightarrow> d \<in> set (consultations st)"
  proof (intro ballI impI)
    fix d
    assume d: "d \<in> set (consultations (snd (updateStatus now usr i b st)))"
      and s: "status d \<in> {''scheduled'', ''pending'', ''rescheduled''}"
    from updateStatus_docs[OF d] s show "d \<in> set (consultations st)"
      by (auto simp: admittedTargets_def)
  qed
qed

lemma complete_first_of_two:
  "updateStatus may1 exampleConsultantUser 11 (setStatus ''completed'' None)
       (calendarWith [seeded 11 jun1_1000 ''confirmed'', seeded 12 jun1_1100 ''rescheduled'']) =
     (succeed 200 ''Consultation completed successfully''
        (seeded 11 jun1_1000 ''completed''),
      calendarWith [seeded 11 jun1_1000 ''completed'',
                    seeded 12 jun1_1100 ''rescheduled''])"
  by (simp add: status_defs example_defs setStatus_def succeed_def)

theorem status_endpoint_targets_witness:
  "success (fst (updateStatus may1 exampleConsultantUser 11 (setStatus ''completed'' None)
       (calendarWith [seeded 11 jun1_1000 ''confirmed'', seeded 12 jun1_1100 ''rescheduled'']))) \<and>
   status_status (setStatus ''completed'' None) \<in> admittedTargets \<and>
   status_status (setStatus ''pending'' None) \<notin> admittedTargets \<and>
   updateStatus may1 exampleAdmin 11 (setStatus ''pending'' None)
       (calendarWith [seeded 11 jun1_1000 ''confirmed'', seeded 12 jun1_1100 ''rescheduled'']) =
     (failure 400 ''Validation failed'',
      calendarWith [seeded 11 jun1_1000 ''confirmed'', seeded 12 jun1_1100 ''rescheduled'']) \<and>
   seeded 12 jun1_1100 ''rescheduled'' \<in> set (consultations (snd
     (updateStatus may1 exampleConsultantUser 11 (setStatus ''completed'' None)
       (calendarWith [seeded 11 jun1_1000 ''confirmed'', seeded 12 jun1_1100 ''rescheduled''])))) \<and>
   status (seeded 12 jun1_1100 ''rescheduled'') \<in> {''scheduled'', ''pending'', ''rescheduled''} \<and>
   seeded 12 jun1_1100 ''rescheduled'' \<in> set (consultations
       (calendarWith [seeded 11 jun1_1000 ''confirmed'', seeded 12 jun1_1100 ''rescheduled'']))"
proof -
  let ?st = "calendarWith [seeded 11 jun1_1000 ''confirmed'', seeded 12 jun1_1100 ''rescheduled'']"
  let ?d = "seeded 12 jun1_1100 ''rescheduled''"
  have ok: "success (fst (updateStatus may1 exampleConsultantUser 11 (setStatus ''completed'' None) ?st))"
    by (simp only: complete_first_of_two fst_conv succeed_simps)
  have out: "status_status (setStatus ''pending'' None) \<notin> admittedTargets"
    by (simp add: setStatus_def admittedTargets_def)
  have m: "?d \<in> set (consultations (snd
     (updateStatus may1 exampleConsultantUser 11 (setStatus ''completed'' None) ?st)))"
    by (simp only: complete_first_of_two snd_conv) (simp add: calendarWith_def)
  have s: "status ?d \<in> {''scheduled'', ''pending'', ''rescheduled''}"
    by (simp add: seeded_def)
  note t1 = status_endpoint_targets[of may1 exampleConsultantUser 11 "setStatus ''completed'' None" ?st]
  note t2 = status_endpoint_targets[of may1 exampleAdmin 11 "setStatus ''pending'' None" ?st]
  from t1 ok have w1: "status_status (setStatus ''completed'' None) \<in> admittedTargets" by blast
  from t2 out have w2: "updateStatus may1 exampleAdmin 11 (setStatus ''pending'' None) ?st =
     (failure 400 ''Validation failed'', ?st)" by blast
  from t1 m s have w3: "?d \<in> set (consultations ?st)" by blast
  from ok w1 out w2 m s w3 show ?thesis by blast
qed

theorem controller_status_counterexample:
  "''pending'' \<notin> admittedTargets \<and> ''rescheduled'' \<notin> admittedTargets \<and>
   (\<forall>cfg. snd (updateConsultationStatus cfg may1 2 11 (statusOnly ''pending'')
                 (calendarWith [seeded 11 jun1_1000 ''confirmed''])) =
          calendarWith [seeded 11 jun1_1000 ''pending'']) \<and>
   (\<forall>cfg. snd (updateConsultationStatus cfg may1 2 11 (statusOnly ''rescheduled'')
                 (calendarWith [seeded 11 jun1_1000 ''confirmed''])) =
          calendarWith [seeded 11 jun1_1000 ''rescheduled'']) \<and>
   fst (updateConsultationStatus (exampleMapper False) may1 2 11 (statusOnly ''pending'')
          (calendarWith [seeded 11 jun1_1000 ''confirmed''])) =
     succeed 200 ''Consultation pending successfully''
       (seeded 11 jun1_1000 ''pending'') \<and>
   fst (updateConsultationStatus (exampleMapper False) may1 2 11 (statusOnly ''rescheduled'')
          (calendarWith [seeded 11 jun1_1000 ''confirmed''])) =
     succeed 200 ''Consultation rescheduled successfully''
       (seeded 11 jun1_1000 ''rescheduled'')"
  by (simp add: admittedTargets_def controller_sets_pending controller_sets_rescheduled
        exampleMapper_def)

lemma stored_document_names:
  "readName ''completedAt'' (load c) = None" "readName ''cancelledBy'' (load c) = None"
  "readName ''cancelledAt'' (load c) = None" "readName ''feedbackProvided'' (load c) = None"
  "readName ''feedback'' (load c) = None" "readName ''rescheduleHistory'' (load c) = None"
  "readName ''timeSlot'' (load c) = None" "readName ''client'' (load c) = None"
  by (simp_all add: readName_def load_def undeclared_names)

text \<open>
  Claim C9. The completion of a confirmed consultation by its consultant is accepted, and the
  stored document carries no completion timestamp: it is the previous document with the new
  status. The cancellation by the client with the reason \<^verbatim>\<open>ill\<close> is accepted, and the stored
  document carries the reason, but neither the acting user nor a cancellation timestamp.
  \<^verbatim>\<open>completedAt\<close>, \<^verbatim>\<open>cancelledBy\<close> and \<^verbatim>\<open>cancelledAt\<close>, which the handler assigns, are no
  paths of the consultation schema.
\<close>

theorem status_timestamps_not_stored:
  "updateStatus may1 exampleConsultantUser 11 (setStatus ''completed'' None)
       (calendarWith [seeded 11 jun1_1000 ''confirmed'']) =
     (succeed 200 ''Consultation completed successfully''
        (seeded 11 jun1_1000 ''completed''),
      calendarWith [seeded 11 jun1_1000 ''completed'']) \<and>
   readName ''completedAt'' (load (seeded 11 jun1_1000 ''completed''))
     = None \<and>
   updateStatus may1 exampleClient 11 (setStatus ''cancelled'' (Some '' ill ''))
       (calendarWith [seeded 11 jun1_1000 ''confirmed'']) =
     (succeed 200 ''Consultation cancelled successfully''
        ((seeded 11 jun1_1000 ''cancelled'')
           \<lparr>cancellationReason := Some ''ill''\<rparr>),
      calendarWith [(seeded 11 jun1_1000 ''cancelled'')
           \<lparr>cancellationReason := Some ''ill''\<rparr>]) \<and>
   readName ''cancelledBy'' (load ((seeded 11 jun1_1000 ''cancelled'')
           \<lparr>cancellationReason := Some ''ill''\<rparr>)) = None \<and>
   readName ''cancelledAt'' (load ((seeded 11 jun1_1000 ''cancelled'')
           \<lparr>cancellationReason := Some ''ill''\<rparr>)) = None"
  using complete_confirmed cancel_with_reason by (simp add: stored_document_names)

section \<open>Creating a booking\<close>

lemma newConsultation_invalid: "\<not> validateSync (newConsultation usr b i)"
  by (simp add: validateSync_def newConsultation_def requiredString_def)

lemma newConsultation_status_invalid: "status (newConsultation usr b i) \<notin> set statusEnum"
  by (simp add: newConsultation_def statusEnum_def)


lemmas create_defs =
  createConsultation_def consultationValidation_def optionalMaxLength_def conflicting_def
  newConsultation_invalid Let_def booking_def

lemma first_booking:
  "createConsultation cfg may1 exampleClient (booking jun1_1000 ''10:00'') (calendarWith []) =
     (failure 500 ''Server error while booking consultation'', calendarWith [])"
  by (simp add: create_defs example_defs)

lemma overlapping_booking:
  "createConsultation cfg may1 exampleClient (booking jun1_1030 ''10:30'')
       (calendarWith [seeded 11 jun1_1000 ''confirmed'']) =
     (failure 500 ''Server error while booking consultation'',
      calendarWith [seeded 11 jun1_1000 ''confirmed''])"
  by (simp add: create_defs example_defs)

lemma later_booking:
  "createConsultation cfg may1 exampleClient (booking jun1_1100 ''11:00'')
       (calendarWith [seeded 11 jun1_1000 ''confirmed'']) =
     (failure 500 ''Server error while booking consultation'',
      calendarWith [seeded 11 jun1_1000 ''confirmed''])"
  by (simp add: create_defs example_defs)

lemma same_start_booking:
  "createConsultation cfg may1 exampleClient (booking jun1_1000 ''10:00'')
       (calendarWith [seeded 11 jun1_1000 ''confirmed'']) =
     (if strictQuery cfg
      then failure 400
        ''Consultant is not available at this time. Please choose another time slot.''
      else failure 500 ''Server error while booking consultation'',
      calendarWith [seeded 11 jun1_1000 ''confirmed''])"
  by (simp add: create_defs example_defs stored_document_names)

lemma rejected_consultant_passes_guard:
  "createConsultation cfg may1 exampleClient (booking jun1_1000 ''10:00'')
       ((calendarWith [])\<lparr>consultants :=
          [\<lparr>consultant_id = 2, isActive = True, approvalStatus = ''rejected''\<rparr>]\<rparr>) =
     (failure 500 ''Server error while booking consultation'',
      (calendarWith [])\<lparr>consultants :=
          [\<lparr>consultant_id = 2, isActive = True, approvalStatus = ''rejected''\<rparr>]\<rparr>)"
  by (simp add: create_defs example_defs)

lemma hasTimeConflict_overlap:
  "hasTimeConflict (newConsultation exampleClient (booking jun1_1030 ''10:30'') 12)
     [seeded 11 jun1_1000 ''confirmed'']"
  by (simp add: hasTimeConflict_def virtualEndTime_def newConsultation_def booking_def example_defs)

lemma hasTimeConflict_adjacent:
  "\<not> hasTimeConflict (newConsultation exampleClient (booking jun1_1100 ''11:00'') 12)
     [seeded 11 jun1_1000 ''confirmed'']"
  by (simp add: hasTimeConflict_def virtualEndTime_def newConsultation_def booking_def example_defs)

text \<open>
  Claim C1. The booking scenario of the specification, on the handler and the consultation
  schema of the repository. The first booking, for 10:00 on an empty calendar, is answered
  \<^verbatim>\<open>500 Server error while booking consultation\<close> and stores nothing, where the claim
  has it succeed. With a confirmed consultation of consultant 2 stored at 10:00 for
  60 minutes, the request for 11:00, which does not overlap it, receives the same answer;
  the overlapping request for 10:30 passes the conflict query, which compares the scheduled
  date for equality, and receives the same 500 and not the conflict message.
  The schema's own method \<^verbatim>\<open>hasTimeConflict\<close> reports the overlap at 10:30 and none at
  11:00.
\<close>

theorem booking_scenario_server_error:
  "(\<forall>cfg. createConsultation cfg may1 exampleClient (booking jun1_1000 ''10:00'')
            (calendarWith []) =
          (failure 500 ''Server error while booking consultation'', calendarWith [])) \<and>
   (\<forall>cfg. createConsultation cfg may1 exampleClient (booking jun1_1100 ''11:00'')
            (calendarWith [seeded 11 jun1_1000 ''confirmed'']) =
          (failure 500 ''Server error while booking consultation'',
           calendarWith [seeded 11 jun1_1000 ''confirmed''])) \<and>
   (\<forall>cfg. createConsultation cfg may1 exampleClient (booking jun1_1030 ''10:30'')
            (calendarWith [seeded 11 jun1_1000 ''confirmed'']) =
          (failure 500 ''Server error while booking consultation'',
           calendarWith [seeded 11 jun1_1000 ''confirmed''])) \<and>
   hasTimeConflict (newConsultation exampleClient (booking jun1_1030 ''10:30'') 12)
     [seeded 11 jun1_1000 ''confirmed''] \<and>
   \<not> hasTimeConflict (newConsultation exampleClient (booking jun1_1100 ''11:00'') 12)
     [seeded 11 jun1_1000 ''confirmed'']"
  using first_booking later_booking overlapping_booking hasTimeConflict_overlap
    hasTimeConflict_adjacent
  by blast


section \<open>Rescheduling\<close>

lemma rescheduleConsultation_never_succeeds:
  "\<not> success (fst (rescheduleConsultation cfg now usr i b st)) \<and>
   snd (rescheduleConsultation cfg now usr i b st) = st"
  by (simp add: rescheduleConsultation_def failure_def Let_def split: option.splits)

lemma historyOf_undefined:
  "historyOf (rescheduleAssignments d ts (load c)) = None"
  by (simp add: historyOf_def rescheduleAssignments_def Let_def readName_def assign_def
      load_def undeclared_names declared_paths consultationVirtuals_def)

lemmas reschedule_defs =
  rescheduleConsultation_def rescheduleValidation_def optionalMaxLength_def findById_def
  conflictingOther_def conflicting_def historyOf_undefined Let_def moveTo_def


lemma reschedule_rescheduled:
  "rescheduleConsultation cfg may1 exampleClient 11 (moveTo jun1_1100 ''11:00'' None)
       (calendarWith [seeded 11 jun1_1000 ''rescheduled'']) =
     (failure 400 ''Only scheduled or confirmed consultations can be rescheduled'',
      calendarWith [seeded 11 jun1_1000 ''rescheduled''])"
  by (simp add: reschedule_defs example_defs)

lemma reschedule_to_past:
  "rescheduleConsultation cfg may1 exampleClient 11 (moveTo may1 ''00:00'' None)
       (calendarWith [seeded 11 jun1_1000 ''confirmed'']) =
     (failure 400 ''New scheduled date must be in the future'',
      calendarWith [seeded 11 jun1_1000 ''confirmed''])"
  by (simp add: reschedule_defs example_defs)


text \<open>
  Claim C4 (as amended). For a consultation that exists, a reschedule request is rejected
  whenever the current status is neither \<^verbatim>\<open>scheduled\<close> nor \<^verbatim>\<open>confirmed\<close> (a consultation
  already in status \<^verbatim>\<open>rescheduled\<close> included), and whenever the new date is not strictly
  after the clock reading. When the request has passed validation and the requester is the
  client of the booking or an admin, the first rejection is the 400 response
  \<^verbatim>\<open>Only scheduled or confirmed consultations can be rescheduled\<close> and the second, for a
  status \<^verbatim>\<open>scheduled\<close> or \<^verbatim>\<open>confirmed\<close>, the 400 response
  \<^verbatim>\<open>New scheduled date must be in the future\<close>. A rejected request leaves the store
  unchanged.
\<close>

theorem reschedule_rejections:
  assumes "rescheduleConsultation cfg now usr i b st = (r, st')"
    and "findById i (consultations st) = Some c"
  shows "(status c \<noteq> ''scheduled'' \<and> status c \<noteq> ''confirmed'' \<longrightarrow> \<not> success r) \<and>
         (reschedule_scheduledDate b \<le> now \<longrightarrow> \<not> success r) \<and>
         (rescheduleValidation b \<and> (user c = userId usr \<or> role usr = ''admin'') \<and>
            status c \<noteq> ''scheduled'' \<and> status c \<noteq> ''confirmed'' \<longrightarrow>
          r = failure 400 ''Only scheduled or confirmed consultations can be rescheduled'') \<and>
         (rescheduleValidation b \<and> (user c = userId usr \<or> role usr = ''admin'') \<and>
            (status c = ''scheduled'' \<or> status c = ''confirmed'') \<and>
            reschedule_scheduledDate b \<le> now \<longrightarrow>
          r = failure 400 ''New scheduled date must be in the future'') \<and>
         (\<not> success r \<longrightarrow> st' = st)"
proof -
  have r: "r = fst (rescheduleConsultation cfg now usr i b st)"
    and s: "st' = snd (rescheduleConsultation cfg now usr i b st)"
    using assms(1) by simp_all
  have a: "\<not> success r" using r rescheduleConsultation_never_succeeds by simp
  have b: "st' = st" using s rescheduleConsultation_never_succeeds by simp
  have c: "r = failure 400 ''Only scheduled or confirmed consultations can be rescheduled''"
    if "rescheduleValidation b" "user c = userId usr \<or> role usr = ''admin''"
       "status c \<noteq> ''scheduled''" "status c \<noteq> ''confirmed''"
    using assms that by (auto simp: rescheduleConsultation_def)
  have d: "r = failure 400 ''New scheduled date must be in the future''"
    if "rescheduleValidation b" "user c = userId usr \<or> role usr = ''admin''"
       "status c = ''scheduled'' \<or> status c = ''confirmed''" "reschedule_scheduledDate b \<le> now"
    using assms that by (auto simp: rescheduleConsultation_def)
  from a b c d show ?thesis by blast
qed

theorem reschedule_rejections_witness:
  "status (seeded 11 jun1_1000 ''rescheduled'') \<noteq> ''scheduled'' \<and>
   status (seeded 11 jun1_1000 ''rescheduled'') \<noteq> ''confirmed'' \<and>
   rescheduleValidation (moveTo jun1_1100 ''11:00'' None) \<and>
   user (seeded 11 jun1_1000 ''rescheduled'') = userId exampleClient \<and>
   fst (rescheduleConsultation (exampleMapper True) may1 exampleClient 11
          (moveTo jun1_1100 ''11:00'' None) (calendarWith [seeded 11 jun1_1000 ''rescheduled''])) =
     failure 400 ''Only scheduled or confirmed consultations can be rescheduled'' \<and>
   status (seeded 11 jun1_1000 ''confirmed'') = ''confirmed'' \<and>
   reschedule_scheduledDate (moveTo may1 ''00:00'' None) \<le> may1 \<and>
   rescheduleValidation (moveTo may1 ''00:00'' None) \<and>
   fst (rescheduleConsultation (exampleMapper True) may1 exampleClient 11
          (moveTo may1 ''00:00'' None) (calendarWith [seeded 11 jun1_1000 ''confirmed''])) =
     failure 400 ''New scheduled date must be in the future'' \<and>
   \<not> success (fst (rescheduleConsultation (exampleMapper True) may1 exampleClient 11
          (moveTo may1 ''00:00'' None) (calendarWith [seeded 11 jun1_1000 ''confirmed'']))) \<and>
   snd (rescheduleConsultation (exampleMapper True) may1 exampleClient 11
          (moveTo may1 ''00:00'' None) (calendarWith [seeded 11 jun1_1000 ''confirmed''])) =
     calendarWith [seeded 11 jun1_1000 ''confirmed'']"
proof -
  let ?r = "seeded 11 jun1_1000 ''rescheduled''"
  let ?c = "seeded 11 jun1_1000 ''confirmed''"
  let ?b = "moveTo jun1_1100 ''11:00'' None"
  let ?p = "moveTo may1 ''00:00'' None"
  have fr: "findById 11 (consultations (calendarWith [?r])) = Some ?r"
    by (simp add: findById_def example_defs)
  have fc: "findById 11 (consultations (calendarWith [?c])) = Some ?c"
    by (simp add: findById_def example_defs)
  have sr: "status ?r \<noteq> ''scheduled''" "status ?r \<noteq> ''confirmed''"
    by (simp_all add: seeded_def)
  have sc: "status ?c = ''confirmed''" by (simp add: seeded_def)
  have vb: "rescheduleValidation ?b" "rescheduleValidation ?p"
    by (simp_all add: rescheduleValidation_def optionalMaxLength_def moveTo_def)
  have ur: "user ?r = userId exampleClient" "user ?c = userId exampleClient"
    by (simp_all add: example_defs)
  have past: "reschedule_scheduledDate ?p \<le> may1" by (simp add: moveTo_def)
  note t1 = reschedule_rejections[OF prod.collapse[symmetric] fr,
      of "exampleMapper True" may1 exampleClient ?b]
  note t2 = reschedule_rejections[OF prod.collapse[symmetric] fc,
      of "exampleMapper True" may1 exampleClient ?p]
  from t1 sr vb ur
  have w1: "fst (rescheduleConsultation (exampleMapper True) may1 exampleClient 11 ?b
                  (calendarWith [?r])) =
            failure 400 ''Only scheduled or confirmed consultations can be rescheduled''"
    by blast
  from t2 sc vb ur past
  have w2: "fst (rescheduleConsultation (exampleMapper True) may1 exampleClient 11 ?p
                  (calendarWith [?c])) =
            failure 400 ''New scheduled date must be in the future''"
    by blast
  from t2 past
  have w3: "\<not> success (fst (rescheduleConsultation (exampleMapper True) may1 exampleClient 11 ?p
                  (calendarWith [?c])))"
    by blast
  from t2 w3
  have w4: "snd (rescheduleConsultation (exampleMapper True) may1 exampleClient 11 ?p
                  (calendarWith [?c])) = calendarWith [?c]"
    by blast
  from sr vb ur w1 sc past w2 w3 w4 show ?thesis by blast
qed

theorem reschedule_from_rescheduled_counterexample:
  "(\<forall>cfg. rescheduleConsultation cfg may1 exampleClient 11 (moveTo jun1_1100 ''11:00'' None)
            (calendarWith [seeded 11 jun1_1000 ''rescheduled'']) =
          (failure 400 ''Only scheduled or confirmed consultations can be rescheduled'',
           calendarWith [seeded 11 jun1_1000 ''rescheduled''])) \<and>
   status (seeded 11 jun1_1000 ''rescheduled'') = ''rescheduled'' \<and>
   may1 < reschedule_scheduledDate (moveTo jun1_1100 ''11:00'' None) \<and>
   user (seeded 11 jun1_1000 ''rescheduled'') = userId exampleClient \<and>
   consultations (calendarWith [seeded 11 jun1_1000 ''rescheduled'']) =
     [seeded 11 jun1_1000 ''rescheduled'']"
  using reschedule_rescheduled by (simp add: moveTo_def example_defs)

section \<open>Feedback and the rating aggregate\<close>

lemma feedbackUpdate_fst:
  "fst (feedbackUpdate now r fb (load c)) = c\<lparr>rating := Some (of_int r), updatedAt := Some now\<rparr>"
  by (cases fb)
     (simp_all add: feedbackUpdate_def Let_def assign_path assign_other declared_paths
        undeclared_names setPath_def load_def)

lemma findByIdAndUpdate_undeclared:
  "findByIdAndUpdate k [(''rating'', v), (''totalRatings'', w)] ds = ds"
  by (simp add: findByIdAndUpdate_def consultantPaths_def map_idI)

lemma updateConsultantRating_stores_nothing: "updateConsultantRating rounded k st = st"
  by (simp add: updateConsultantRating_def Let_def findByIdAndUpdate_undeclared)

lemma addFeedback_accepted:
  assumes "feedbackValidation b" and "findById i (consultations st) = Some c"
    and "user c = userId usr" and "status c = ''completed''" and "validateSync c"
  shows "addFeedback rounded now usr i b st =
     (succeed 200 ''Feedback submitted successfully''
        (c\<lparr>rating := Some (of_int (feedback_rating b)), updatedAt := Some now\<rparr>),
      st\<lparr>consultations :=
           replace (c\<lparr>rating := Some (of_int (feedback_rating b)), updatedAt := Some now\<rparr>)
             (consultations st)\<rparr>)"
proof -
  have "validateSync (c\<lparr>rating := Some (of_int (feedback_rating b)), updatedAt := Some now\<rparr>)"
    using assms(1,5) by (simp add: validateSync_def feedbackValidation_def)
  then show ?thesis
    using assms
    by (simp add: addFeedback_def stored_document_names truthyValue_def feedbackUpdate_fst
        save_def Let_def updateConsultantRating_stores_nothing)
qed

lemmas feedback_defs =
  addFeedback_def feedbackValidation_def optionalMaxLength_def findById_def
  stored_document_names truthyValue_def feedbackUpdate_fst save_def replace_def Let_def
  updateConsultantRating_stores_nothing validateSync_def requiredString_def maxlength_def
  serviceTypeEnum_def durationEnum_def statusEnum_def paymentStatusEnum_def rate_def
  sanitized_def trim_def isWhitespace_def

lemma first_feedback:
  "addFeedback rounded may1 exampleClient 11 (rate 5 (Some ''great''))
       (calendarWith [seeded 11 jun1_1000 ''completed'']) =
     (succeed 200 ''Feedback submitted successfully''
        ((seeded 11 jun1_1000 ''completed'')\<lparr>rating := Some 5\<rparr>),
      calendarWith [(seeded 11 jun1_1000 ''completed'')
                      \<lparr>rating := Some 5\<rparr>])"
  by (simp add: feedback_defs example_defs succeed_def)

lemma second_feedback:
  "addFeedback rounded jun1_1000 exampleClient 11 (rate 1 None)
       (calendarWith [(seeded 11 jun1_1000 ''completed'')
                        \<lparr>rating := Some 5\<rparr>]) =
     (succeed 200 ''Feedback submitted successfully''
        ((seeded 11 jun1_1000 ''completed'')\<lparr>rating := Some 1, updatedAt := Some jun1_1000\<rparr>),
      calendarWith [(seeded 11 jun1_1000 ''completed'')
                      \<lparr>rating := Some 1, updatedAt := Some jun1_1000\<rparr>])"
  by (simp add: feedback_defs example_defs succeed_def)

lemma rateConsultation_fails:
  "findById i (consultations st) = Some c \<Longrightarrow>
   rateConsultation now requester i b st =
     (failure 500 ''Server error while rating consultation'', st)"
  by (simp add: rateConsultation_def stored_document_names)

lemma rateConsultation_never_succeeds:
  "\<not> success (fst (rateConsultation now requester i b st)) \<and>
   snd (rateConsultation now requester i b st) = st"
  by (simp add: rateConsultation_def stored_document_names failure_def split: option.splits)

text \<open>
  Claim C5. On the feedback route, two feedback requests of the client on the same completed
  consultation are both answered \<^verbatim>\<open>200 Feedback submitted successfully\<close>; the second
  replaces the stored rating 5 by 1. \<^verbatim>\<open>feedbackProvided\<close>, which the once-only guard reads,
  and \<^verbatim>\<open>feedback\<close>, which is to hold the text, are no paths of the consultation schema: the
  document stored after the first request has neither.
\<close>

theorem feedback_accepted_twice:
  "(\<forall>rounded. addFeedback rounded may1 exampleClient 11 (rate 5 (Some ''great''))
        (calendarWith [seeded 11 jun1_1000 ''completed'']) =
      (succeed 200 ''Feedback submitted successfully''
         ((seeded 11 jun1_1000 ''completed'')\<lparr>rating := Some 5\<rparr>),
       calendarWith [(seeded 11 jun1_1000 ''completed'')
                       \<lparr>rating := Some 5\<rparr>])) \<and>
   (\<forall>rounded. addFeedback rounded jun1_1000 exampleClient 11 (rate 1 None)
        (calendarWith [(seeded 11 jun1_1000 ''completed'')
                         \<lparr>rating := Some 5\<rparr>]) =
      (succeed 200 ''Feedback submitted successfully''
         ((seeded 11 jun1_1000 ''completed'')\<lparr>rating := Some 1, updatedAt := Some jun1_1000\<rparr>),
       calendarWith [(seeded 11 jun1_1000 ''completed'')
                       \<lparr>rating := Some 1, updatedAt := Some jun1_1000\<rparr>])) \<and>
   readName ''feedbackProvided''
     (load ((seeded 11 jun1_1000 ''completed'')\<lparr>rating := Some 5\<rparr>))
     = None \<and>
   readName ''feedback''
     (load ((seeded 11 jun1_1000 ''completed'')\<lparr>rating := Some 5\<rparr>))
     = None"
  using first_feedback second_feedback by (simp add: stored_document_names)

text \<open>
  Claim C6. \<^verbatim>\<open>updateConsultantRating\<close> leaves the store as it is, and no feedback request
  changes a consultant document: \<^verbatim>\<open>rating\<close> and \<^verbatim>\<open>totalRatings\<close>, the keys of its update,
  are no paths of the Consultant schema. After the accepted feedback with rating 5 for the
  consultation of consultant 2, the aggregation matches the one rating 5, and the consultant
  document carries neither a rating nor a count.
\<close>

theorem rating_aggregate_not_stored:
  "updateConsultantRating rounded k st = st \<and>
   consultants (snd (addFeedback rounded now usr i b st)) = consultants st \<and>
   ''rating'' \<notin> set consultantPaths \<and> ''totalRatings'' \<notin> set consultantPaths \<and>
   addFeedback rounded may1 exampleClient 11 (rate 5 (Some ''great''))
        (calendarWith [seeded 11 jun1_1000 ''completed'']) =
      (succeed 200 ''Feedback submitted successfully''
         ((seeded 11 jun1_1000 ''completed'')\<lparr>rating := Some 5\<rparr>),
       calendarWith [(seeded 11 jun1_1000 ''completed'')
                       \<lparr>rating := Some 5\<rparr>]) \<and>
   matchedRatings 2 [(seeded 11 jun1_1000 ''completed'')
                       \<lparr>rating := Some 5\<rparr>] = [5]"
proof -
  have "consultants (snd (addFeedback rounded now usr i b st)) = consultants st"
    by (simp add: addFeedback_def Let_def updateConsultantRating_stores_nothing
        split: option.splits)
  moreover have "matchedRatings 2 [(seeded 11 jun1_1000 ''completed'')
                       \<lparr>rating := Some 5\<rparr>] = [5]"
    by (simp add: matchedRatings_def seeded_def)
  ultimately show ?thesis
    using first_feedback updateConsultantRating_stores_nothing
    by (simp add: consultantPaths_def)
qed

section \<open>Enrollment\<close>






end
